theory Spec2Isabelle
  imports Main "HOL-Library.Multiset" "HOL-Library.Sublist"
begin

section \<open>The course aggregate\<close>

text \<open>
  Modelled from the spec: the type declarations of package \<open>courseload\<close>, which
  \<open>database/main.go\<close> imports. Only the fields that \<open>main.go\<close> reads and writes are known:
  a course has a CRN and a data part with title, subject, number, description, a list of
  instructors and a list of meetings; every scalar field is a Go \<open>string\<close> (each is
  passed to and scanned from a TEXT column without conversion). A Go slice is modelled by
  the sequence of its elements, so a nil slice and an empty one are the same list.
\<close>

record Instructor =
  LastName :: string
  FirstName :: string
  Email :: string

record Meeting =
  Days :: string
  Building :: string
  Room :: string
  Time :: string

record CourseData =
  Title :: string
  Subject :: string
  Number :: string
  Description :: string
  Instructors :: "Instructor list"
  Meetings :: "Meeting list"

record Course =
  CRN :: string
  Data :: CourseData

section \<open>The store\<close>

text \<open>
  The three tables of \<open>COURSES_STATEMENT\<close>, \<open>INSTRUCTORS_STATEMENT\<close> and
  \<open>MEETINGS_STATEMENT\<close>, each a list of rows in scan order (the order of insertion).
  The two \<open>AUTOINCREMENT\<close> tables keep the largest id handed out so far. The journal
  records every statement sent to the engine through the handle \<open>db\<close>, reads as well as
  writes, in the order they are sent.
\<close>

record course_row =
  courses_term_crn :: string
  courses_title :: string
  courses_subject_code :: string
  courses_course_number :: string
  courses_description :: string

record instructor_row =
  instructors_id :: int
  instructors_last_name :: string
  instructors_first_name :: string
  instructors_email :: string
  instructors_term_crn :: string

record meeting_row =
  meetings_id :: int
  meetings_days :: string
  meetings_building :: string
  meetings_room :: string
  meetings_time :: string
  meetings_term_crn :: string

text \<open>
  The statements of \<open>main.go\<close>, one constructor for each statement text, with the bound
  parameters in the order of the \<open>?\<close> marks. The last constructor is the text that the
  default branch of \<open>QueryCourse\<close> builds by concatenation: it carries the key as the
  text that is spliced in.
\<close>

datatype stmt =
    INSERT_COURSE_STATEMENT string string string string string
  | INSERT_INSTUCTOR_STATEMENT string string string string
  | INSERT_MEETING_STATEMENT string string string string string
  | DELETE_FROM_courses string
  | DELETE_FROM_instructors string
  | DELETE_FROM_meetings string
  | SELECT_COUSE_STATEMENT string
  | SELECT_INSTRUCTORS_STATEMENT string
  | SELECT_MEETINGS_STATEMENT string
  | SELECT_term_crn_FROM_courses
  | SELECT_WHERE_title_LIKE string
  | SELECT_WHERE_subject_code_AND_course_number_LIKE string string
  | SELECT_WHERE_key string string

record store =
  tbl_courses :: "course_row list"
  tbl_instructors :: "instructor_row list"
  tbl_meetings :: "meeting_row list"
  instructors_seq :: int
  meetings_seq :: int
  journal :: "stmt list"

datatype sql_value = SqlText string | SqlInt int

datatype error =
    ErrNoRows
  | UniqueConstraintFailed string
  | NoSuchColumn string
  | ScanError
  | Errorf string

subsection \<open>The LIKE operator\<close>

text \<open>
  The engine's \<open>LIKE\<close>: in the pattern, \<open>%\<close> stands for any run of characters and
  \<open>_\<close> for any one character; every other character stands for itself, and two ASCII
  letters that differ only in case are taken as equal (no \<open>ESCAPE\<close> clause and no
  \<open>case_sensitive_like\<close> pragma occur in \<open>main.go\<close>). A \<open>char\<close> of the model is one
  character of the text.
\<close>

definition ascii_lower :: "char \<Rightarrow> char" where
  "ascii_lower c =
     (let n = (of_char c :: nat) in if 65 \<le> n \<and> n \<le> 90 then char_of (n + 32) else c)"

definition like_char :: "char \<Rightarrow> char \<Rightarrow> bool" where
  "like_char p c \<longleftrightarrow> p = c \<or> ascii_lower p = ascii_lower c"

fun like :: "string \<Rightarrow> string \<Rightarrow> bool" where
  "like [] s = (s = [])"
| "like (p # ps) s =
     (if p = CHR ''%'' then
        like ps s \<or> (case s of [] \<Rightarrow> False | c # cs \<Rightarrow> like (p # ps) cs)
      else
        (case s of [] \<Rightarrow> False
         | c # cs \<Rightarrow> (p = CHR ''_'' \<or> like_char p c) \<and> like ps cs))"


subsection \<open>Running a statement\<close>

definition next_rowid :: "int \<Rightarrow> int list \<Rightarrow> int" where
  "next_rowid seq ids = fold max ids seq + 1"

text \<open>
  The column that an identifier spliced into a statement over \<open>courses\<close> names.
\<close>

definition column :: "string \<Rightarrow> (course_row \<Rightarrow> string) option" where
  "column name =
     (if name = ''term_crn'' then Some courses_term_crn
      else if name = ''title'' then Some courses_title
      else if name = ''subject_code'' then Some courses_subject_code
      else if name = ''course_number'' then Some courses_course_number
      else if name = ''description'' then Some courses_description
      else None)"

definition course_values :: "course_row \<Rightarrow> sql_value list" where
  "course_values r =
     [SqlText (courses_term_crn r), SqlText (courses_title r),
      SqlText (courses_subject_code r), SqlText (courses_course_number r),
      SqlText (courses_description r)]"

definition instructor_values :: "instructor_row \<Rightarrow> sql_value list" where
  "instructor_values r =
     [SqlInt (instructors_id r), SqlText (instructors_last_name r),
      SqlText (instructors_first_name r), SqlText (instructors_email r)]"

definition meeting_values :: "meeting_row \<Rightarrow> sql_value list" where
  "meeting_values r =
     [SqlInt (meetings_id r), SqlText (meetings_days r), SqlText (meetings_building r),
      SqlText (meetings_room r), SqlText (meetings_time r)]"

definition crn_values :: "course_row \<Rightarrow> sql_value list" where
  "crn_values r = [SqlText (courses_term_crn r)]"

text \<open>
  What the engine does with one statement: the rows it yields, or the error, and the
  tables afterwards. \<open>term_crn\<close> is the primary key of \<open>courses\<close>, so a second row
  with a stored key is refused and nothing is written. The foreign keys of the two child
  tables are declared but not enforced (the handle is opened without the
  \<open>foreign_keys\<close> pragma, and \<open>DeleteCourse\<close> deletes the parent row first), so a child
  row is accepted whatever its \<open>term_crn\<close>. An \<open>AUTOINCREMENT\<close> id is one more than the
  largest id of the table and of its sequence; ids are unbounded here. Failures of the
  file system are outside the model.
\<close>

fun engine :: "stmt \<Rightarrow> store \<Rightarrow> (error + sql_value list list) \<times> store" where
  "engine (INSERT_COURSE_STATEMENT crn t sc cn d) s =
     (if crn \<in> set (map courses_term_crn (tbl_courses s))
      then (Inl (UniqueConstraintFailed ''courses.term_crn''), s)
      else (Inr [],
            s\<lparr>tbl_courses := tbl_courses s @
                [\<lparr>courses_term_crn = crn, courses_title = t, courses_subject_code = sc,
                  courses_course_number = cn, courses_description = d\<rparr>]\<rparr>))"
| "engine (INSERT_INSTUCTOR_STATEMENT ln fn em crn) s =
     (let i = next_rowid (instructors_seq s) (map instructors_id (tbl_instructors s))
      in (Inr [],
          s\<lparr>tbl_instructors := tbl_instructors s @
                [\<lparr>instructors_id = i, instructors_last_name = ln,
                  instructors_first_name = fn, instructors_email = em,
                  instructors_term_crn = crn\<rparr>],
            instructors_seq := i\<rparr>))"
| "engine (INSERT_MEETING_STATEMENT dy b r t crn) s =
     (let i = next_rowid (meetings_seq s) (map meetings_id (tbl_meetings s))
      in (Inr [],
          s\<lparr>tbl_meetings := tbl_meetings s @
                [\<lparr>meetings_id = i, meetings_days = dy, meetings_building = b,
                  meetings_room = r, meetings_time = t, meetings_term_crn = crn\<rparr>],
            meetings_seq := i\<rparr>))"
| "engine (DELETE_FROM_courses crn) s =
     (Inr [], s\<lparr>tbl_courses := filter (\<lambda>r. courses_term_crn r \<noteq> crn) (tbl_courses s)\<rparr>)"
| "engine (DELETE_FROM_instructors crn) s =
     (Inr [],
      s\<lparr>tbl_instructors :=
          filter (\<lambda>r. instructors_term_crn r \<noteq> crn) (tbl_instructors s)\<rparr>)"
| "engine (DELETE_FROM_meetings crn) s =
     (Inr [],
      s\<lparr>tbl_meetings := filter (\<lambda>r. meetings_term_crn r \<noteq> crn) (tbl_meetings s)\<rparr>)"
| "engine (SELECT_COUSE_STATEMENT crn) s =
     (Inr (map course_values (filter (\<lambda>r. courses_term_crn r = crn) (tbl_courses s))), s)"
| "engine (SELECT_INSTRUCTORS_STATEMENT crn) s =
     (Inr (map instructor_values
             (filter (\<lambda>r. instructors_term_crn r = crn) (tbl_instructors s))), s)"
| "engine (SELECT_MEETINGS_STATEMENT crn) s =
     (Inr (map meeting_values
             (filter (\<lambda>r. meetings_term_crn r = crn) (tbl_meetings s))), s)"
| "engine SELECT_term_crn_FROM_courses s =
     (Inr (map crn_values (tbl_courses s)), s)"
| "engine (SELECT_WHERE_title_LIKE pat) s =
     (Inr (map crn_values (filter (\<lambda>r. like pat (courses_title r)) (tbl_courses s))), s)"
| "engine (SELECT_WHERE_subject_code_AND_course_number_LIKE v pat) s =
     (Inr (map crn_values
             (filter (\<lambda>r. courses_subject_code r = v \<and> like pat (courses_course_number r))
                (tbl_courses s))), s)"
| "engine (SELECT_WHERE_key key v) s =
     (case column key of
        None \<Rightarrow> (Inl (NoSuchColumn key), s)
      | Some col \<Rightarrow> (Inr (map crn_values (filter (\<lambda>r. col r = v) (tbl_courses s))), s))"

text \<open>
  \<open>db.Exec\<close>, \<open>db.Query\<close> and \<open>db.QueryRow\<close>: the statement goes into the journal and
  is run. \<open>Exec\<close> keeps only the error; \<open>QueryRow\<close> keeps its error for the \<open>Scan\<close>
  that follows.
\<close>

definition db_Exec :: "store \<Rightarrow> stmt \<Rightarrow> error option \<times> store" where
  "db_Exec s q =
     (case engine q (s\<lparr>journal := journal s @ [q]\<rparr>) of
        (Inl err, s') \<Rightarrow> (Some err, s')
      | (Inr _, s') \<Rightarrow> (None, s'))"

definition db_Query :: "store \<Rightarrow> stmt \<Rightarrow> (error + sql_value list list) \<times> store" where
  "db_Query s q = engine q (s\<lparr>journal := journal s @ [q]\<rparr>)"

definition db_QueryRow :: "store \<Rightarrow> stmt \<Rightarrow> (error + sql_value list list) \<times> store" where
  "db_QueryRow s q = db_Query s q"

subsection \<open>Scan\<close>

text \<open>
  \<open>row.Scan\<close> on the result of \<open>QueryRow\<close> gives the deferred error, \<open>sql.ErrNoRows\<close>
  when no row was found, and otherwise reads the first row. \<open>rows.Scan\<close> reads the
  current row. A row that does not have the expected columns is an error.
\<close>

fun scan_course ::
  "error + sql_value list list \<Rightarrow> error + string \<times> string \<times> string \<times> string \<times> string"
where
  "scan_course (Inl err) = Inl err"
| "scan_course (Inr []) = Inl ErrNoRows"
| "scan_course (Inr ([SqlText a, SqlText b, SqlText c, SqlText d, SqlText e] # _)) =
     Inr (a, b, c, d, e)"
| "scan_course (Inr (_ # _)) = Inl ScanError"

fun scan_instructor :: "sql_value list \<Rightarrow> error + int \<times> string \<times> string \<times> string" where
  "scan_instructor [SqlInt i, SqlText a, SqlText b, SqlText c] = Inr (i, a, b, c)"
| "scan_instructor _ = Inl ScanError"

fun scan_meeting ::
  "sql_value list \<Rightarrow> error + int \<times> string \<times> string \<times> string \<times> string"
where
  "scan_meeting [SqlInt i, SqlText a, SqlText b, SqlText c, SqlText d] = Inr (i, a, b, c, d)"
| "scan_meeting _ = Inl ScanError"

fun scan_crn :: "sql_value list \<Rightarrow> error + string" where
  "scan_crn [SqlText a] = Inr a"
| "scan_crn _ = Inl ScanError"

section \<open>The repository functions\<close>

text \<open>
  Each function takes the store behind the shared handle \<open>db\<close> and returns it with its
  result. A Go result \<open>(v, err)\<close> is a pair of options: \<open>None\<close> is \<open>nil\<close>. The handle
  is taken to be open (\<open>Init\<close> has run).
\<close>

subsection \<open>InsertCourse\<close>

fun InsertCourse_instructors ::
  "store \<Rightarrow> Instructor list \<Rightarrow> string \<Rightarrow> error option \<times> store"
where
  "InsertCourse_instructors s [] crn = (None, s)"
| "InsertCourse_instructors s (instructor # rest) crn =
     (case db_Exec s (INSERT_INSTUCTOR_STATEMENT (LastName instructor)
                        (FirstName instructor) (Email instructor) crn) of
        (Some err, s') \<Rightarrow> (Some err, s')
      | (None, s') \<Rightarrow> InsertCourse_instructors s' rest crn)"

fun InsertCourse_meetings ::
  "store \<Rightarrow> Meeting list \<Rightarrow> string \<Rightarrow> error option \<times> store"
where
  "InsertCourse_meetings s [] crn = (None, s)"
| "InsertCourse_meetings s (meeting # rest) crn =
     (case db_Exec s (INSERT_MEETING_STATEMENT (Days meeting) (Building meeting)
                        (Room meeting) (Time meeting) crn) of
        (Some err, s') \<Rightarrow> (Some err, s')
      | (None, s') \<Rightarrow> InsertCourse_meetings s' rest crn)"

definition InsertCourse :: "store \<Rightarrow> Course \<Rightarrow> error option \<times> store" where
  "InsertCourse s course =
     (case db_Exec s (INSERT_COURSE_STATEMENT (CRN course) (Title (Data course))
                        (Subject (Data course)) (Number (Data course))
                        (Description (Data course))) of
        (Some err, s1) \<Rightarrow> (Some err, s1)
      | (None, s1) \<Rightarrow>
          (case InsertCourse_instructors s1 (Instructors (Data course)) (CRN course) of
             (Some err, s2) \<Rightarrow> (Some err, s2)
           | (None, s2) \<Rightarrow>
               (case InsertCourse_meetings s2 (Meetings (Data course)) (CRN course) of
                  (Some err, s3) \<Rightarrow> (Some err, s3)
                | (None, s3) \<Rightarrow> (None, s3))))"

subsection \<open>DeleteCourse\<close>

definition DeleteCourse :: "store \<Rightarrow> string \<Rightarrow> error option \<times> store" where
  "DeleteCourse s crn =
     (case db_Exec s (DELETE_FROM_courses crn) of
        (Some err, s1) \<Rightarrow> (Some err, s1)
      | (None, s1) \<Rightarrow>
          (case db_Exec s1 (DELETE_FROM_instructors crn) of
             (Some err, s2) \<Rightarrow> (Some err, s2)
           | (None, s2) \<Rightarrow>
               (case db_Exec s2 (DELETE_FROM_meetings crn) of
                  (Some err, s3) \<Rightarrow> (Some err, s3)
                | (None, s3) \<Rightarrow> (None, s3))))"

subsection \<open>GetCourse\<close>

fun GetCourse_instructors ::
  "sql_value list list \<Rightarrow> Instructor list \<Rightarrow> error + Instructor list"
where
  "GetCourse_instructors [] instructors = Inr instructors"
| "GetCourse_instructors (row # rows) instructors =
     (case scan_instructor row of
        Inl err \<Rightarrow> Inl err
      | Inr (i, ln, fn, em) \<Rightarrow>
          GetCourse_instructors rows
            (instructors @ [\<lparr>LastName = ln, FirstName = fn, Email = em\<rparr>]))"

fun GetCourse_meetings ::
  "sql_value list list \<Rightarrow> Meeting list \<Rightarrow> error + Meeting list"
where
  "GetCourse_meetings [] meetings = Inr meetings"
| "GetCourse_meetings (row # rows) meetings =
     (case scan_meeting row of
        Inl err \<Rightarrow> Inl err
      | Inr (i, dy, b, r, t) \<Rightarrow>
          GetCourse_meetings rows
            (meetings @ [\<lparr>Days = dy, Building = b, Room = r, Time = t\<rparr>]))"

definition GetCourse :: "store \<Rightarrow> string \<Rightarrow> (Course option \<times> error option) \<times> store" where
  "GetCourse s term_crn =
     (case db_QueryRow s (SELECT_COUSE_STATEMENT term_crn) of (row, s1) \<Rightarrow>
      (case scan_course row of
         Inl err \<Rightarrow> ((None, Some err), s1)
       | Inr (term_crn, title, subject_code, course_number, description) \<Rightarrow>
      (case db_Query s1 (SELECT_INSTRUCTORS_STATEMENT term_crn) of
         (Inl err, s2) \<Rightarrow> ((None, Some err), s2)
       | (Inr rows, s2) \<Rightarrow>
      (case GetCourse_instructors rows [] of
         Inl err \<Rightarrow> ((None, Some err), s2)
       | Inr instructors \<Rightarrow>
      (case db_Query s2 (SELECT_MEETINGS_STATEMENT term_crn) of
         (Inl err, s3) \<Rightarrow> ((None, Some err), s3)
       | (Inr rows, s3) \<Rightarrow>
      (case GetCourse_meetings rows [] of
         Inl err \<Rightarrow> ((None, Some err), s3)
       | Inr meetings \<Rightarrow>
           ((Some \<lparr>CRN = term_crn,
                   Data = \<lparr>Title = title, Subject = subject_code, Number = course_number,
                           Description = description, Instructors = instructors,
                           Meetings = meetings\<rparr>\<rparr>,
             None), s3)))))))"

subsection \<open>GetCourseCRNs\<close>

fun GetCourseCRNs_rows :: "sql_value list list \<Rightarrow> string list \<Rightarrow> error + string list" where
  "GetCourseCRNs_rows [] courses = Inr courses"
| "GetCourseCRNs_rows (row # rows) courses =
     (case scan_crn row of
        Inl err \<Rightarrow> Inl err
      | Inr term_crn \<Rightarrow> GetCourseCRNs_rows rows (courses @ [term_crn]))"

definition GetCourseCRNs :: "store \<Rightarrow> (string list option \<times> error option) \<times> store" where
  "GetCourseCRNs s =
     (case db_Query s SELECT_term_crn_FROM_courses of
        (Inl err, s1) \<Rightarrow> ((None, Some err), s1)
      | (Inr rows, s1) \<Rightarrow>
          (case GetCourseCRNs_rows rows [] of
             Inl err \<Rightarrow> ((None, Some err), s1)
           | Inr courses \<Rightarrow> ((Some courses, None), s1)))"

subsection \<open>QueryCourse\<close>

definition QueryableKeys :: "string \<rightharpoonup> string" where
  "QueryableKeys =
     map_of [(''term_crn'', ''CRN''), (''title'', ''Title''), (''subject_code'', ''Subject''),
             (''course_number'', ''Number''), (''subject-number'', ''Subject & Number'')]"

text \<open>
  A call either returns or panics. Indexing a slice beyond its length and dereferencing a
  nil pointer are the two panics that a statement of \<open>QueryCourse\<close> can raise.
\<close>

datatype panic = IndexOutOfRange nat nat | NilDereference

datatype 'a outcome = Returns 'a | Panics panic

definition index :: "string list \<Rightarrow> nat \<Rightarrow> panic + string" where
  "index values i =
     (if i < length values then Inr (values ! i)
      else Inl (IndexOutOfRange i (length values)))"

text \<open>
  The \<open>switch\<close>: the statement that is sent for a key, with its arguments evaluated
  from left to right before the call.
\<close>

definition QueryCourse_switch :: "string \<Rightarrow> string list \<Rightarrow> panic + stmt" where
  "QueryCourse_switch key values =
     (if key = ''title'' then
        (case index values 0 of
           Inl p \<Rightarrow> Inl p
         | Inr v0 \<Rightarrow> Inr (SELECT_WHERE_title_LIKE (''%'' @ v0 @ ''%'')))
      else if key = ''subject-number'' then
        (case index values 0 of
           Inl p \<Rightarrow> Inl p
         | Inr v0 \<Rightarrow>
             (case index values 1 of
                Inl p \<Rightarrow> Inl p
              | Inr v1 \<Rightarrow>
                  Inr (SELECT_WHERE_subject_code_AND_course_number_LIKE v0
                         (''%'' @ v1 @ ''%''))))
      else
        (case index values 0 of
           Inl p \<Rightarrow> Inl p
         | Inr v0 \<Rightarrow> Inr (SELECT_WHERE_key key v0)))"

fun QueryCourse_rows ::
  "store \<Rightarrow> sql_value list list \<Rightarrow> Course list \<Rightarrow>
     (Course list option \<times> error option) outcome \<times> store"
where
  "QueryCourse_rows s [] courses = (Returns (Some courses, None), s)"
| "QueryCourse_rows s (row # rows) courses =
     (case scan_crn row of
        Inl err \<Rightarrow> (Returns (None, Some err), s)
      | Inr term_crn \<Rightarrow>
          (case GetCourse s term_crn of
             ((_, Some err), s') \<Rightarrow> (Returns (None, Some err), s')
           | ((None, None), s') \<Rightarrow> (Panics NilDereference, s')
           | ((Some course, None), s') \<Rightarrow> QueryCourse_rows s' rows (courses @ [course])))"

definition QueryCourse ::
  "store \<Rightarrow> string \<Rightarrow> string list \<Rightarrow>
     (Course list option \<times> error option) outcome \<times> store"
where
  "QueryCourse s key values =
     (if QueryableKeys key = None then
        (Returns (None, Some (Errorf (''key '' @ key @ '' is not queryable''))), s)
      else
        (case QueryCourse_switch key values of
           Inl p \<Rightarrow> (Panics p, s)
         | Inr q \<Rightarrow>
             (case db_Query s q of
                (Inl err, s1) \<Rightarrow> (Returns (None, Some err), s1)
              | (Inr rows, s1) \<Rightarrow> QueryCourse_rows s1 rows [])))"

subsection \<open>OpenDatabase\<close>

text \<open>
  \<open>sql.Open\<close> is the environment's: \<open>sql_Open i\<close> is what its call number \<open>i\<close> (from 0)
  returns, an error or a handle. A \<open>time.Duration\<close> is a number of nanoseconds. The
  function returns \<open>(db, err)\<close>; the trace lists the calls of \<open>sql.Open\<close> and of
  \<open>time.Sleep\<close> in the order they are made.
\<close>

datatype event = Open | Sleep int

definition Millisecond :: int where
  "Millisecond = 1000000"

definition maxRetries :: nat where
  "maxRetries = 5"

definition baseDelay :: int where
  "baseDelay = 100 * Millisecond"

function OpenDatabase_loop ::
  "(nat \<Rightarrow> 'e + 'h) \<Rightarrow> nat \<Rightarrow> 'h option \<Rightarrow> 'e option \<Rightarrow> event list \<Rightarrow>
     ('h option \<times> 'e option) \<times> event list"
where
  "OpenDatabase_loop sql_Open i db err trace =
     (if i < maxRetries then
        (case sql_Open i of
           Inr h \<Rightarrow> ((Some h, None), trace @ [Open])
         | Inl e \<Rightarrow>
             OpenDatabase_loop sql_Open (Suc i) None (Some e)
               (trace @ [Open, Sleep (baseDelay * int i)]))
      else ((db, err), trace))"
  by pat_completeness auto
termination
  by (relation "measure (\<lambda>(sql_Open, i, db, err, trace). maxRetries - i)") auto

definition OpenDatabase ::
  "'h option \<Rightarrow> (nat \<Rightarrow> 'e + 'h) \<Rightarrow> ('h option \<times> 'e option) \<times> event list" where
  "OpenDatabase db sql_Open = OpenDatabase_loop sql_Open 0 db None []"

text \<open>
  The calls that the loop of \<open>OpenDatabase\<close> makes for the failed attempts \<open>i\<close> up to
  \<open>k - 1\<close>: each attempt and the sleep that follows it. The attempts of a trace are its
  calls of \<open>sql.Open\<close>.
\<close>

definition retry_trace :: "nat \<Rightarrow> nat \<Rightarrow> event list" where
  "retry_trace i k = concat (map (\<lambda>j. [Open, Sleep (baseDelay * int j)]) [i..<k])"

definition attempts :: "event list \<Rightarrow> nat" where
  "attempts trace = length (filter (\<lambda>e. e = Open) trace)"

section \<open>Stored aggregates\<close>

text \<open>
  The aggregate that the three tables hold for a course row: the row's own columns, and
  the child rows tagged with its CRN, in scan order and without their ids.
\<close>

definition Instructor_of :: "instructor_row \<Rightarrow> Instructor" where
  "Instructor_of r =
     \<lparr>LastName = instructors_last_name r, FirstName = instructors_first_name r,
      Email = instructors_email r\<rparr>"

definition Meeting_of :: "meeting_row \<Rightarrow> Meeting" where
  "Meeting_of r =
     \<lparr>Days = meetings_days r, Building = meetings_building r, Room = meetings_room r,
      Time = meetings_time r\<rparr>"

definition instructors_of :: "store \<Rightarrow> string \<Rightarrow> Instructor list" where
  "instructors_of s crn =
     map Instructor_of (filter (\<lambda>r. instructors_term_crn r = crn) (tbl_instructors s))"

definition meetings_of :: "store \<Rightarrow> string \<Rightarrow> Meeting list" where
  "meetings_of s crn =
     map Meeting_of (filter (\<lambda>r. meetings_term_crn r = crn) (tbl_meetings s))"

definition aggregate :: "store \<Rightarrow> course_row \<Rightarrow> Course" where
  "aggregate s r =
     \<lparr>CRN = courses_term_crn r,
      Data = \<lparr>Title = courses_title r, Subject = courses_subject_code r,
              Number = courses_course_number r, Description = courses_description r,
              Instructors = instructors_of s (courses_term_crn r),
              Meetings = meetings_of s (courses_term_crn r)\<rparr>\<rparr>"

definition crns :: "store \<Rightarrow> string list" where
  "crns s = map courses_term_crn (tbl_courses s)"


text \<open>The row that \<open>INSERT_COURSE_STATEMENT\<close> writes for a course.\<close>

definition row_of :: "Course \<Rightarrow> course_row" where
  "row_of course =
     \<lparr>courses_term_crn = CRN course, courses_title = Title (Data course),
      courses_subject_code = Subject (Data course),
      courses_course_number = Number (Data course),
      courses_description = Description (Data course)\<rparr>"

text \<open>The statements that one call of \<open>GetCourse\<close> sends when the course row is found.\<close>

definition GetCourse_journal :: "string \<Rightarrow> stmt list" where
  "GetCourse_journal crn =
     [SELECT_COUSE_STATEMENT crn, SELECT_INSTRUCTORS_STATEMENT crn,
      SELECT_MEETINGS_STATEMENT crn]"

section \<open>Example data\<close>

definition empty_store :: store where
  "empty_store =
     \<lparr>tbl_courses = [], tbl_instructors = [], tbl_meetings = [],
      instructors_seq = 0, meetings_seq = 0, journal = []\<rparr>"

definition example_course :: Course where
  "example_course =
     \<lparr>CRN = ''202410-12345'',
      Data = \<lparr>Title = ''Intro to Systems'', Subject = ''CS'', Number = ''101'',
              Description = ''Processes and files'',
              Instructors = [\<lparr>LastName = ''Doe'', FirstName = ''Jane'',
                              Email = ''jdoe@x.edu''\<rparr>],
              Meetings = [\<lparr>Days = ''MWF'', Building = ''Hall'', Room = ''101'',
                           Time = ''10:00-10:50''\<rparr>]\<rparr>\<rparr>"

definition example_store :: store where
  "example_store =
     \<lparr>tbl_courses =
        [\<lparr>courses_term_crn = ''202410-12345'', courses_title = ''Intro to Systems'',
          courses_subject_code = ''CS'', courses_course_number = ''101'',
          courses_description = ''Processes and files''\<rparr>],
      tbl_instructors =
        [\<lparr>instructors_id = 1, instructors_last_name = ''Doe'',
          instructors_first_name = ''Jane'', instructors_email = ''jdoe@x.edu'',
          instructors_term_crn = ''202410-12345''\<rparr>],
      tbl_meetings =
        [\<lparr>meetings_id = 1, meetings_days = ''MWF'', meetings_building = ''Hall'',
          meetings_room = ''101'', meetings_time = ''10:00-10:50'',
          meetings_term_crn = ''202410-12345''\<rparr>],
      instructors_seq = 1, meetings_seq = 1, journal = []\<rparr>"

text \<open>
  A store with no course row and one instructor row that is still tagged with the CRN
  of the example course: a child row without its parent, which the tables admit.
\<close>

definition orphan_store :: store where
  "orphan_store =
     \<lparr>tbl_courses = [],
      tbl_instructors =
        [\<lparr>instructors_id = 7, instructors_last_name = ''Roe'',
          instructors_first_name = ''Richard'', instructors_email = ''rroe@x.edu'',
          instructors_term_crn = ''202410-12345''\<rparr>],
      tbl_meetings = [],
      instructors_seq = 7, meetings_seq = 0, journal = []\<rparr>"




section \<open>Reading from the store\<close>

lemma GetCourse_instructors_values:
  "GetCourse_instructors (map instructor_values rs) acc = Inr (acc @ map Instructor_of rs)"
  by (induction rs arbitrary: acc) (simp_all add: instructor_values_def Instructor_of_def)

lemma GetCourse_meetings_values:
  "GetCourse_meetings (map meeting_values rs) acc = Inr (acc @ map Meeting_of rs)"
  by (induction rs arbitrary: acc) (simp_all add: meeting_values_def Meeting_of_def)

lemma GetCourse_found:
  assumes "filter (\<lambda>r. courses_term_crn r = crn) (tbl_courses s) = r # rs"
  shows "GetCourse s crn =
           ((Some (aggregate s r), None), s\<lparr>journal := journal s @ GetCourse_journal crn\<rparr>)"
proof -
  have crn: "courses_term_crn r = crn"
    using assms by (metis (mono_tags, lifting) filter_eq_ConsD)
  show ?thesis
    using assms crn
    by (simp add: GetCourse_def db_QueryRow_def db_Query_def course_values_def
        GetCourse_instructors_values GetCourse_meetings_values aggregate_def
        instructors_of_def meetings_of_def GetCourse_journal_def)
qed

lemma GetCourse_missing:
  assumes "crn \<notin> set (crns s)"
  shows "GetCourse s crn =
           ((None, Some ErrNoRows), s\<lparr>journal := journal s @ [SELECT_COUSE_STATEMENT crn]\<rparr>)"
proof -
  have "filter (\<lambda>r. courses_term_crn r = crn) (tbl_courses s) = []"
    using assms by (auto simp: filter_empty_conv crns_def)
  then show ?thesis
    by (simp add: GetCourse_def db_QueryRow_def db_Query_def)
qed

lemma GetCourseCRNs_rows_values:
  "GetCourseCRNs_rows (map crn_values rs) acc = Inr (acc @ map courses_term_crn rs)"
  by (induction rs arbitrary: acc) (simp_all add: crn_values_def)

lemma GetCourseCRNs_eq:
  "GetCourseCRNs s =
     ((Some (crns s), None), s\<lparr>journal := journal s @ [SELECT_term_crn_FROM_courses]\<rparr>)"
  by (simp add: GetCourseCRNs_def db_Query_def GetCourseCRNs_rows_values crns_def)

section \<open>The whitelist of QueryCourse\<close>

lemma QueryableKeys_None:
  "QueryableKeys key = None \<longleftrightarrow>
     key \<notin> {''term_crn'', ''title'', ''subject_code'', ''course_number'', ''subject-number''}"
  by (simp add: QueryableKeys_def)

text \<open>
  C2. A key outside the whitelist: \<open>QueryCourse\<close> returns a nil slice and the error
  \<open>key ... is not queryable\<close>, whatever the values, and the store it leaves is the store
  it found, journal included: no statement was sent, neither a read nor a write.
\<close>

theorem QueryCourse_unsupported_key:
  assumes "key \<notin> {''term_crn'', ''title'', ''subject_code'', ''course_number'',
                   ''subject-number''}"
  shows "QueryCourse s key values =
           (Returns (None, Some (Errorf (''key '' @ key @ '' is not queryable''))), s)"
  using assms by (simp add: QueryCourse_def QueryableKeys_None)

theorem QueryCourse_unsupported_key_witness:
  "''description'' \<notin> {''term_crn'', ''title'', ''subject_code'', ''course_number'',
                        ''subject-number''} \<and>
   QueryCourse example_store ''description'' [''Processes and files''] =
     (Returns (None, Some (Errorf ''key description is not queryable'')), example_store)"
  using QueryCourse_unsupported_key [of "''description''" example_store
      "[''Processes and files'']"]
  by simp

text \<open>
  C10. \<open>QueryCourse\<close> indexes \<open>values\<close> without looking at its length. With a
  whitelisted key and no value the call panics at \<open>values[0]\<close>; with the key
  \<open>subject-number\<close> and one value it panics at \<open>values[1]\<close>. In both cases no error
  is returned and no statement has been sent.
\<close>

theorem QueryCourse_too_few_values:
  "(key \<in> {''term_crn'', ''title'', ''subject_code'', ''course_number'', ''subject-number''}
      \<longrightarrow> QueryCourse s key [] = (Panics (IndexOutOfRange 0 0), s)) \<and>
   QueryCourse s ''subject-number'' [v] = (Panics (IndexOutOfRange 1 1), s)"
proof (intro conjI impI)
  assume "key \<in> {''term_crn'', ''title'', ''subject_code'', ''course_number'',
                   ''subject-number''}"
  then have "QueryableKeys key \<noteq> None"
    by (simp add: QueryableKeys_None)
  moreover have "QueryCourse_switch key [] = Inl (IndexOutOfRange 0 0)"
    by (simp add: QueryCourse_switch_def index_def)
  ultimately show "QueryCourse s key [] = (Panics (IndexOutOfRange 0 0), s)"
    by (simp add: QueryCourse_def)
next
  have "QueryCourse_switch ''subject-number'' [v] = Inl (IndexOutOfRange 1 1)"
    by (simp add: QueryCourse_switch_def index_def)
  then show "QueryCourse s ''subject-number'' [v] = (Panics (IndexOutOfRange 1 1), s)"
    by (simp add: QueryCourse_def QueryableKeys_def)
qed

theorem QueryCourse_too_few_values_witness:
  "''title'' \<in> {''term_crn'', ''title'', ''subject_code'', ''course_number'',
                 ''subject-number''} \<and>
   QueryCourse example_store ''title'' [] = (Panics (IndexOutOfRange 0 0), example_store) \<and>
   QueryCourse example_store ''subject-number'' [''CS''] =
     (Panics (IndexOutOfRange 1 1), example_store)"
  using QueryCourse_too_few_values [of "''title''" example_store "''CS''"]
  by simp

section \<open>GetCourseCRNs\<close>

text \<open>
  C9. On a store with no course row, \<open>GetCourseCRNs\<close> returns the empty slice that it
  made, not nil, and a nil error.
\<close>

theorem GetCourseCRNs_empty:
  assumes "tbl_courses s = []"
  shows "fst (GetCourseCRNs s) = (Some [], None)"
  using assms by (simp add: GetCourseCRNs_eq crns_def)

theorem GetCourseCRNs_empty_witness:
  "tbl_courses empty_store = [] \<and> fst (GetCourseCRNs empty_store) = (Some [], None)"
  using GetCourseCRNs_empty [of empty_store]
  by (simp add: empty_store_def)

section \<open>Writing to the store\<close>

lemma db_Exec_INSERT_COURSE_fresh:
  assumes "crn \<notin> set (crns s)"
  shows "db_Exec s (INSERT_COURSE_STATEMENT crn t sc cn d) =
    (None, s\<lparr>journal := journal s @ [INSERT_COURSE_STATEMENT crn t sc cn d],
             tbl_courses := tbl_courses s @
               [\<lparr>courses_term_crn = crn, courses_title = t, courses_subject_code = sc,
                 courses_course_number = cn, courses_description = d\<rparr>]\<rparr>)"
  using assms by (simp add: db_Exec_def crns_def)

lemma db_Exec_INSERT_COURSE_stored:
  assumes "crn \<in> set (crns s)"
  shows "db_Exec s (INSERT_COURSE_STATEMENT crn t sc cn d) =
    (Some (UniqueConstraintFailed ''courses.term_crn''),
     s\<lparr>journal := journal s @ [INSERT_COURSE_STATEMENT crn t sc cn d]\<rparr>)"
  using assms by (simp add: db_Exec_def crns_def)

lemma InsertCourse_instructors_fst:
  "fst (InsertCourse_instructors s xs crn) = None"
  by (induction xs arbitrary: s) (simp_all add: db_Exec_def Let_def)

lemma InsertCourse_instructors_courses:
  "tbl_courses (snd (InsertCourse_instructors s xs crn)) = tbl_courses s"
  by (induction xs arbitrary: s) (simp_all add: db_Exec_def Let_def)

lemma InsertCourse_instructors_meetings:
  "tbl_meetings (snd (InsertCourse_instructors s xs crn)) = tbl_meetings s"
  by (induction xs arbitrary: s) (simp_all add: db_Exec_def Let_def)

lemma InsertCourse_instructors_of:
  "instructors_of (snd (InsertCourse_instructors s xs crn)) c =
     instructors_of s c @ (if c = crn then xs else [])"
  by (induction xs arbitrary: s)
     (simp_all add: db_Exec_def Let_def instructors_of_def Instructor_of_def)

lemma InsertCourse_meetings_fst:
  "fst (InsertCourse_meetings s xs crn) = None"
  by (induction xs arbitrary: s) (simp_all add: db_Exec_def Let_def)

lemma InsertCourse_meetings_courses:
  "tbl_courses (snd (InsertCourse_meetings s xs crn)) = tbl_courses s"
  by (induction xs arbitrary: s) (simp_all add: db_Exec_def Let_def)

lemma InsertCourse_meetings_instructors:
  "tbl_instructors (snd (InsertCourse_meetings s xs crn)) = tbl_instructors s"
  by (induction xs arbitrary: s) (simp_all add: db_Exec_def Let_def)

lemma InsertCourse_meetings_of:
  "meetings_of (snd (InsertCourse_meetings s xs crn)) c =
     meetings_of s c @ (if c = crn then xs else [])"
  by (induction xs arbitrary: s)
     (simp_all add: db_Exec_def Let_def meetings_of_def Meeting_of_def)

lemma InsertCourse_fresh:
  assumes "CRN course \<notin> set (crns s)"
  shows "fst (InsertCourse s course) = None"
    and "tbl_courses (snd (InsertCourse s course)) = tbl_courses s @ [row_of course]"
    and "instructors_of (snd (InsertCourse s course)) c =
           instructors_of s c @ (if c = CRN course then Instructors (Data course) else [])"
    and "meetings_of (snd (InsertCourse s course)) c =
           meetings_of s c @ (if c = CRN course then Meetings (Data course) else [])"
proof -
  let ?q = "INSERT_COURSE_STATEMENT (CRN course) (Title (Data course))
              (Subject (Data course)) (Number (Data course)) (Description (Data course))"
  define s1 where "s1 = s\<lparr>journal := journal s @ [?q],
                          tbl_courses := tbl_courses s @ [row_of course]\<rparr>"
  define s2 where "s2 = snd (InsertCourse_instructors s1 (Instructors (Data course)) (CRN course))"
  define s3 where "s3 = snd (InsertCourse_meetings s2 (Meetings (Data course)) (CRN course))"
  have e1: "db_Exec s ?q = (None, s1)"
    using assms by (simp add: db_Exec_INSERT_COURSE_fresh row_of_def s1_def)
  have e2: "InsertCourse_instructors s1 (Instructors (Data course)) (CRN course) = (None, s2)"
    unfolding s2_def by (metis InsertCourse_instructors_fst prod.collapse)
  have e3: "InsertCourse_meetings s2 (Meetings (Data course)) (CRN course) = (None, s3)"
    unfolding s3_def by (metis InsertCourse_meetings_fst prod.collapse)
  have eq: "InsertCourse s course = (None, s3)"
    by (simp add: InsertCourse_def e1 e2 e3)
  show "fst (InsertCourse s course) = None"
    by (simp add: eq)
  have "tbl_courses s3 = tbl_courses s1"
    by (simp add: s3_def s2_def InsertCourse_meetings_courses InsertCourse_instructors_courses)
  then show "tbl_courses (snd (InsertCourse s course)) = tbl_courses s @ [row_of course]"
    by (simp add: eq s1_def)
  have "instructors_of s3 c = instructors_of s2 c"
    by (simp add: instructors_of_def s3_def InsertCourse_meetings_instructors)
  also have "\<dots> = instructors_of s1 c @ (if c = CRN course then Instructors (Data course) else [])"
    unfolding s2_def by (rule InsertCourse_instructors_of)
  also have "instructors_of s1 c = instructors_of s c"
    by (simp add: instructors_of_def s1_def)
  finally show "instructors_of (snd (InsertCourse s course)) c =
           instructors_of s c @ (if c = CRN course then Instructors (Data course) else [])"
    by (simp add: eq)
  have "meetings_of s3 c = meetings_of s2 c @ (if c = CRN course then Meetings (Data course) else [])"
    unfolding s3_def by (rule InsertCourse_meetings_of)
  also have "meetings_of s2 c = meetings_of s1 c"
    by (simp add: meetings_of_def s2_def InsertCourse_instructors_meetings)
  also have "meetings_of s1 c = meetings_of s c"
    by (simp add: meetings_of_def s1_def)
  finally show "meetings_of (snd (InsertCourse s course)) c =
           meetings_of s c @ (if c = CRN course then Meetings (Data course) else [])"
    by (simp add: eq)
qed

lemma InsertCourse_then_GetCourse:
  assumes "CRN course \<notin> set (crns s)"
  shows "fst (GetCourse (snd (InsertCourse s course)) (CRN course)) =
     (Some (course\<lparr>Data := (Data course)\<lparr>
        Instructors := instructors_of s (CRN course) @ Instructors (Data course),
        Meetings := meetings_of s (CRN course) @ Meetings (Data course)\<rparr>\<rparr>), None)"
proof -
  define s' where "s' = snd (InsertCourse s course)"
  have "\<forall>r \<in> set (tbl_courses s). courses_term_crn r \<noteq> CRN course"
    using assms unfolding crns_def by force
  then have "filter (\<lambda>r. courses_term_crn r = CRN course) (tbl_courses s) = []"
    by (simp add: filter_empty_conv)
  then have "filter (\<lambda>r. courses_term_crn r = CRN course) (tbl_courses s') = row_of course # []"
    using assms by (simp add: s'_def InsertCourse_fresh(2) row_of_def)
  then have "fst (GetCourse s' (CRN course)) = (Some (aggregate s' (row_of course)), None)"
    by (simp add: GetCourse_found)
  moreover have "aggregate s' (row_of course) = course\<lparr>Data := (Data course)\<lparr>
        Instructors := instructors_of s (CRN course) @ Instructors (Data course),
        Meetings := meetings_of s (CRN course) @ Meetings (Data course)\<rparr>\<rparr>"
    using assms by (simp add: s'_def aggregate_def row_of_def InsertCourse_fresh(3,4))
  ultimately show ?thesis by (simp add: s'_def)
qed

lemma DeleteCourse_eq:
  "DeleteCourse s crn =
     (None, s\<lparr>journal := journal s @
                 [DELETE_FROM_courses crn, DELETE_FROM_instructors crn, DELETE_FROM_meetings crn],
               tbl_courses := filter (\<lambda>r. courses_term_crn r \<noteq> crn) (tbl_courses s),
               tbl_instructors := filter (\<lambda>r. instructors_term_crn r \<noteq> crn) (tbl_instructors s),
               tbl_meetings := filter (\<lambda>r. meetings_term_crn r \<noteq> crn) (tbl_meetings s)\<rparr>)"
  by (simp add: DeleteCourse_def db_Exec_def)

lemma InsertCourse_stored:
  assumes "CRN course \<in> set (crns s)"
  shows "InsertCourse s course =
     (Some (UniqueConstraintFailed ''courses.term_crn''),
      s\<lparr>journal := journal s @ [INSERT_COURSE_STATEMENT (CRN course) (Title (Data course))
              (Subject (Data course)) (Number (Data course)) (Description (Data course))]\<rparr>)"
  using assms by (simp add: InsertCourse_def db_Exec_INSERT_COURSE_stored)

section \<open>Expanding the rows of a query\<close>

lemma GetCourse_Some:
  assumes "GetCourse s crn = ((Some course, err), s')"
  shows "CRN course \<in> set (crns s) \<and> tbl_courses s' = tbl_courses s"
proof (cases "filter (\<lambda>r. courses_term_crn r = crn) (tbl_courses s)")
  case Nil
  then have "crn \<notin> set (crns s)"
    by (auto simp: filter_empty_conv crns_def)
  with assms show ?thesis
    by (simp add: GetCourse_missing)
next
  case (Cons r rs)
  then have "r \<in> set (tbl_courses s)"
    by (metis (mono_tags, lifting) filter_eq_ConsD in_set_conv_decomp)
  with assms Cons show ?thesis
    by (auto simp: GetCourse_found aggregate_def crns_def)
qed

lemma QueryCourse_rows_CRN:
  assumes "QueryCourse_rows s rows acc = (Returns (Some cs, err), s')"
  shows "set (map CRN cs) \<subseteq> set (map CRN acc) \<union> set (crns s)"
  using assms
proof (induction rows arbitrary: s acc)
  case Nil
  then show ?case by auto
next
  case (Cons row rows)
  show ?case
  proof (cases "scan_crn row")
    case (Inl e)
    with Cons.prems show ?thesis by simp
  next
    case (Inr term_crn)
    obtain c e t where g: "GetCourse s term_crn = ((c, e), t)"
      by (metis prod.collapse)
    show ?thesis
    proof (cases e)
      case (Some a)
      with Cons.prems Inr g show ?thesis by (simp split: option.splits)
    next
      case None
      show ?thesis
      proof (cases c)
        case None
        with Cons.prems Inr g \<open>e = None\<close> show ?thesis by simp
      next
        case (Some course)
        with Cons.prems Inr g \<open>e = None\<close>
        have "QueryCourse_rows t rows (acc @ [course]) = (Returns (Some cs, err), s')"
          by simp
        then have "set (map CRN cs) \<subseteq> set (map CRN (acc @ [course])) \<union> set (crns t)"
          by (rule Cons.IH)
        moreover have "CRN course \<in> set (crns s)" "crns t = crns s"
          using GetCourse_Some [of s term_crn course e t] g Some by (simp_all add: crns_def)
        ultimately show ?thesis by auto
      qed
    qed
  qed
qed

lemma db_Query_courses:
  assumes "db_Query s q = (r, s')"
    and "\<forall>a b c d e. q \<noteq> INSERT_COURSE_STATEMENT a b c d e"
    and "\<forall>a. q \<noteq> DELETE_FROM_courses a"
  shows "tbl_courses s' = tbl_courses s"
  using assms
  by (cases q) (auto simp: db_Query_def Let_def split: option.splits)

lemma QueryCourse_switch_select:
  "QueryCourse_switch key values = Inr q \<Longrightarrow>
     (\<forall>a b c d e. q \<noteq> INSERT_COURSE_STATEMENT a b c d e) \<and> (\<forall>a. q \<noteq> DELETE_FROM_courses a)"
  by (auto simp: QueryCourse_switch_def split: if_splits sum.splits)

lemma QueryCourse_CRN:
  assumes "QueryCourse s key values = (Returns (Some cs, err), s')"
  shows "set (map CRN cs) \<subseteq> set (crns s)"
proof -
  from assms have k: "QueryableKeys key \<noteq> None"
    by (auto simp: QueryCourse_def split: if_splits)
  from assms k obtain q where q: "QueryCourse_switch key values = Inr q"
    by (cases "QueryCourse_switch key values") (auto simp: QueryCourse_def)
  obtain r s1 where d: "db_Query s q = (r, s1)"
    by (metis prod.collapse)
  from assms k q d obtain rows where r: "r = Inr rows"
    by (cases r) (auto simp: QueryCourse_def)
  from assms k q d r have "QueryCourse_rows s1 rows [] = (Returns (Some cs, err), s')"
    by (simp add: QueryCourse_def)
  then have "set (map CRN cs) \<subseteq> set (map CRN ([] :: Course list)) \<union> set (crns s1)"
    by (rule QueryCourse_rows_CRN)
  moreover have "tbl_courses s1 = tbl_courses s"
    using db_Query_courses [OF d] QueryCourse_switch_select [OF q] by simp
  ultimately show ?thesis by (simp add: crns_def)
qed


lemma aggregate_journal [simp]: "aggregate (s\<lparr>journal := j\<rparr>) = aggregate s"
  by (rule ext) (simp add: aggregate_def instructors_of_def meetings_of_def)

lemma crns_journal [simp]: "crns (s\<lparr>journal := j\<rparr>) = crns s"
  by (simp add: crns_def)



section \<open>InsertCourse and GetCourse\<close>

text \<open>
  C1. Insert, then get. When no course row carries the CRN of the course, and no
  instructor row and no meeting row is tagged with it either, \<open>InsertCourse\<close> returns
  nil and \<open>GetCourse\<close> on the CRN then returns the course that was inserted: the same
  CRN, title, subject, number and description, and the same instructors and meetings
  (as sequences, hence as multisets; the ids of the child rows do not appear).
\<close>

theorem InsertCourse_GetCourse_roundtrip:
  assumes "CRN course \<notin> set (crns s)"
    and "CRN course \<notin> set (map instructors_term_crn (tbl_instructors s))"
    and "CRN course \<notin> set (map meetings_term_crn (tbl_meetings s))"
  shows "fst (InsertCourse s course) = None \<and>
         fst (GetCourse (snd (InsertCourse s course)) (CRN course)) = (Some course, None)"
proof -
  have "\<forall>r \<in> set (tbl_instructors s). instructors_term_crn r \<noteq> CRN course"
    using assms(2) by force
  then have i: "instructors_of s (CRN course) = []"
    by (simp add: instructors_of_def filter_empty_conv)
  have "\<forall>r \<in> set (tbl_meetings s). meetings_term_crn r \<noteq> CRN course"
    using assms(3) by force
  then have m: "meetings_of s (CRN course) = []"
    by (simp add: meetings_of_def filter_empty_conv)
  show ?thesis
    using assms(1) by (simp add: InsertCourse_fresh(1) InsertCourse_then_GetCourse i m)
qed

theorem InsertCourse_GetCourse_roundtrip_witness:
  "CRN example_course \<notin> set (crns empty_store) \<and>
   CRN example_course \<notin> set (map instructors_term_crn (tbl_instructors empty_store)) \<and>
   CRN example_course \<notin> set (map meetings_term_crn (tbl_meetings empty_store)) \<and>
   fst (InsertCourse empty_store example_course) = None \<and>
   fst (GetCourse (snd (InsertCourse empty_store example_course)) ''202410-12345'') =
     (Some example_course, None)"
  using InsertCourse_GetCourse_roundtrip [of example_course empty_store]
  by (simp add: empty_store_def example_course_def crns_def)

text \<open>
  Without the condition on the child tables the round trip fails. In \<open>orphan_store\<close>
  no course row carries the CRN, so the insert is accepted, but \<open>GetCourse\<close> selects the
  child rows by CRN alone and returns the instructor that was left behind together with
  the one that was inserted.
\<close>

theorem InsertCourse_GetCourse_orphan_counterexample:
  "CRN example_course \<notin> set (crns orphan_store) \<and>
   fst (InsertCourse orphan_store example_course) = None \<and>
   fst (GetCourse (snd (InsertCourse orphan_store example_course)) (CRN example_course)) =
     (Some (example_course\<lparr>Data := (Data example_course)\<lparr>Instructors :=
        [\<lparr>LastName = ''Roe'', FirstName = ''Richard'', Email = ''rroe@x.edu''\<rparr>,
         \<lparr>LastName = ''Doe'', FirstName = ''Jane'', Email = ''jdoe@x.edu''\<rparr>]\<rparr>\<rparr>), None) \<and>
   mset [\<lparr>LastName = ''Roe'', FirstName = ''Richard'', Email = ''rroe@x.edu''\<rparr>,
         \<lparr>LastName = ''Doe'', FirstName = ''Jane'', Email = ''jdoe@x.edu''\<rparr>] \<noteq>
     mset (Instructors (Data example_course))"
proof -
  have c: "CRN example_course \<notin> set (crns orphan_store)"
    by (simp add: crns_def orphan_store_def)
  have i: "instructors_of orphan_store (CRN example_course) =
             [\<lparr>LastName = ''Roe'', FirstName = ''Richard'', Email = ''rroe@x.edu''\<rparr>]"
    by (simp add: instructors_of_def orphan_store_def example_course_def Instructor_of_def)
  have m: "meetings_of orphan_store (CRN example_course) = []"
    by (simp add: meetings_of_def orphan_store_def)
  have g: "fst (GetCourse (snd (InsertCourse orphan_store example_course)) (CRN example_course)) =
     (Some (example_course\<lparr>Data := (Data example_course)\<lparr>Instructors :=
        [\<lparr>LastName = ''Roe'', FirstName = ''Richard'', Email = ''rroe@x.edu''\<rparr>,
         \<lparr>LastName = ''Doe'', FirstName = ''Jane'', Email = ''jdoe@x.edu''\<rparr>]\<rparr>\<rparr>), None)"
    unfolding InsertCourse_then_GetCourse [OF c] i m
    by (simp add: example_course_def)
  have d: "mset [\<lparr>LastName = ''Roe'', FirstName = ''Richard'', Email = ''rroe@x.edu''\<rparr>,
         \<lparr>LastName = ''Doe'', FirstName = ''Jane'', Email = ''jdoe@x.edu''\<rparr>] \<noteq>
     mset (Instructors (Data example_course))"
  proof
    assume "mset [\<lparr>LastName = ''Roe'', FirstName = ''Richard'', Email = ''rroe@x.edu''\<rparr>,
         \<lparr>LastName = ''Doe'', FirstName = ''Jane'', Email = ''jdoe@x.edu''\<rparr>] =
       mset (Instructors (Data example_course))"
    then have "size (mset [\<lparr>LastName = ''Roe'', FirstName = ''Richard'', Email = ''rroe@x.edu''\<rparr>,
         \<lparr>LastName = ''Doe'', FirstName = ''Jane'', Email = ''jdoe@x.edu''\<rparr>]) =
       size (mset (Instructors (Data example_course)))"
      by (rule arg_cong)
    then show False
      by (simp add: example_course_def)
  qed
  from c InsertCourse_fresh(1) [OF c] g d show ?thesis
    by blast
qed

text \<open>
  C6. A course whose CRN is already stored: \<open>InsertCourse\<close> returns the engine's
  uniqueness error for \<open>courses.term_crn\<close>, and the three tables are as they were; only
  the refused statement was sent.
\<close>

theorem InsertCourse_duplicate:
  assumes "CRN course \<in> set (crns s)"
  shows "fst (InsertCourse s course) = Some (UniqueConstraintFailed ''courses.term_crn'') \<and>
         tbl_courses (snd (InsertCourse s course)) = tbl_courses s \<and>
         tbl_instructors (snd (InsertCourse s course)) = tbl_instructors s \<and>
         tbl_meetings (snd (InsertCourse s course)) = tbl_meetings s"
  using assms by (simp add: InsertCourse_stored)

theorem InsertCourse_duplicate_witness:
  "CRN example_course \<in> set (crns example_store) \<and>
   fst (InsertCourse example_store example_course) =
     Some (UniqueConstraintFailed ''courses.term_crn'') \<and>
   tbl_courses (snd (InsertCourse example_store example_course)) = tbl_courses example_store \<and>
   tbl_instructors (snd (InsertCourse example_store example_course)) =
     tbl_instructors example_store \<and>
   tbl_meetings (snd (InsertCourse example_store example_course)) = tbl_meetings example_store"
  using InsertCourse_duplicate [of example_course example_store]
  by (simp add: example_store_def example_course_def crns_def)

section \<open>DeleteCourse\<close>

text \<open>
  C7. After \<open>DeleteCourse\<close> has returned nil for a CRN, no row of the three tables
  carries the CRN, \<open>GetCourse\<close> on it returns \<open>sql.ErrNoRows\<close>, and whatever
  \<open>QueryCourse\<close> returns, for any key and any values, holds no course with that CRN.
\<close>

theorem DeleteCourse_removes:
  assumes "fst (DeleteCourse s crn) = None"
  shows "crn \<notin> set (crns (snd (DeleteCourse s crn))) \<and>
         crn \<notin> set (map instructors_term_crn (tbl_instructors (snd (DeleteCourse s crn)))) \<and>
         crn \<notin> set (map meetings_term_crn (tbl_meetings (snd (DeleteCourse s crn)))) \<and>
         fst (GetCourse (snd (DeleteCourse s crn)) crn) = (None, Some ErrNoRows) \<and>
         (\<forall>key values cs err.
            fst (QueryCourse (snd (DeleteCourse s crn)) key values) = Returns (Some cs, err)
              \<longrightarrow> crn \<notin> set (map CRN cs))"
proof -
  define s' where "s' = snd (DeleteCourse s crn)"
  have c: "crn \<notin> set (crns s')"
    by (auto simp: s'_def DeleteCourse_eq crns_def)
  have i: "crn \<notin> set (map instructors_term_crn (tbl_instructors s'))"
    by (auto simp: s'_def DeleteCourse_eq)
  have m: "crn \<notin> set (map meetings_term_crn (tbl_meetings s'))"
    by (auto simp: s'_def DeleteCourse_eq)
  have g: "fst (GetCourse s' crn) = (None, Some ErrNoRows)"
    using c by (simp add: GetCourse_missing)
  have q: "crn \<notin> set (map CRN cs)"
    if "fst (QueryCourse s' key vals) = Returns (Some cs, err)" for key vals cs err
  proof -
    from that have "QueryCourse s' key vals =
        (Returns (Some cs, err), snd (QueryCourse s' key vals))"
      by (metis prod.collapse)
    then have "set (map CRN cs) \<subseteq> set (crns s')"
      by (rule QueryCourse_CRN)
    with c show ?thesis by blast
  qed
  from c i m g q show ?thesis
    unfolding s'_def by blast
qed

theorem DeleteCourse_removes_witness:
  "fst (DeleteCourse example_store ''202410-12345'') = None \<and>
   ''202410-12345'' \<in> set (crns example_store) \<and>
   fst (GetCourse (snd (DeleteCourse example_store ''202410-12345'')) ''202410-12345'') =
     (None, Some ErrNoRows) \<and>
   fst (QueryCourse (snd (DeleteCourse example_store ''202410-12345'')) ''subject_code''
          [''CS'']) = Returns (Some [], None)"
proof -
  have d: "fst (DeleteCourse example_store ''202410-12345'') = None"
    by (simp add: DeleteCourse_eq)
  have t: "tbl_courses (snd (DeleteCourse example_store ''202410-12345'')) = []"
    by (simp add: DeleteCourse_eq example_store_def)
  have q: "fst (QueryCourse (snd (DeleteCourse example_store ''202410-12345'')) ''subject_code''
          [''CS'']) = Returns (Some [], None)"
    by (simp add: QueryCourse_def QueryableKeys_def QueryCourse_switch_def index_def
        db_Query_def column_def t)
  from DeleteCourse_removes [OF d] d q show ?thesis
    by (simp add: example_store_def crns_def)
qed



section \<open>Matching with LIKE\<close>


lemma like_percent_here: "like ps s \<Longrightarrow> like (CHR ''%'' # ps) s"
  by simp








section \<open>QueryCourse by title and by subject and number\<close>


lemma CRN_aggregate: "CRN (aggregate s r) = courses_term_crn r"
  by (simp add: aggregate_def)
















section \<open>OpenDatabase\<close>

lemma retry_trace_step: "i < k \<Longrightarrow> retry_trace i k = [Open, Sleep (baseDelay * int i)] @ retry_trace (Suc i) k"
  by (simp add: retry_trace_def upt_conv_Cons)

lemma retry_trace_same [simp]: "retry_trace k k = []"
  by (simp add: retry_trace_def)

lemma OpenDatabase_loop_success:
  assumes "i \<le> k" "k < maxRetries" "\<forall>j. i \<le> j \<and> j < k \<longrightarrow> isl (sql_Open j)" "sql_Open k = Inr h"
  shows "OpenDatabase_loop sql_Open i db err trace =
           ((Some h, None), trace @ retry_trace i k @ [Open])"
  using assms
proof (induction "k - i" arbitrary: i db err trace)
  case 0
  then have "i = k" by simp
  with "0.prems" show ?case by simp
next
  case (Suc n)
  then have lt: "i < k" "i < maxRetries" by simp_all
  with Suc.prems obtain e where e: "sql_Open i = Inl e"
    by (cases "sql_Open i") auto
  have "OpenDatabase_loop sql_Open (Suc i) None (Some e) (trace @ [Open, Sleep (baseDelay * int i)]) =
          ((Some h, None), (trace @ [Open, Sleep (baseDelay * int i)]) @ retry_trace (Suc i) k @ [Open])"
    using Suc.hyps(2) Suc.prems lt by (intro Suc.hyps(1)) auto
  with lt e show ?case
    by (simp add: retry_trace_step)
qed

lemma OpenDatabase_loop_failure:
  assumes "i < maxRetries" "\<forall>j. i \<le> j \<and> j < maxRetries \<longrightarrow> isl (sql_Open j)"
  shows "OpenDatabase_loop sql_Open i db err trace =
           ((None, Some (projl (sql_Open (maxRetries - 1)))), trace @ retry_trace i maxRetries)"
  using assms
proof (induction "maxRetries - i" arbitrary: i db err trace)
  case 0
  then show ?case by simp
next
  case (Suc n)
  from Suc.prems obtain e where e: "sql_Open i = Inl e"
    by (cases "sql_Open i") auto
  show ?case
  proof (cases "Suc i < maxRetries")
    case True
    have "OpenDatabase_loop sql_Open (Suc i) None (Some e) (trace @ [Open, Sleep (baseDelay * int i)]) =
          ((None, Some (projl (sql_Open (maxRetries - 1)))),
           (trace @ [Open, Sleep (baseDelay * int i)]) @ retry_trace (Suc i) maxRetries)"
      using Suc.hyps(2) Suc.prems True by (intro Suc.hyps(1)) auto
    with Suc.prems e show ?thesis
      by (simp add: retry_trace_step)
  next
    case False
    with Suc.prems have i: "i = maxRetries - 1" "Suc i = maxRetries" by simp_all
    have "OpenDatabase_loop sql_Open (Suc i) None (Some e) (trace @ [Open, Sleep (baseDelay * int i)]) =
            ((None, Some e), trace @ [Open, Sleep (baseDelay * int i)])"
      using i by simp
    moreover have "retry_trace i maxRetries = [Open, Sleep (baseDelay * int i)]"
      using Suc.prems(1) i(2) by (simp add: retry_trace_step)
    ultimately show ?thesis
      using Suc.prems(1) e i(1) by simp
  qed
qed

lemma attempts_append: "attempts (xs @ ys) = attempts xs + attempts ys"
  by (simp add: attempts_def)

lemma attempts_retry_trace: "attempts (retry_trace i k) = k - i"
proof (induction "k - i" arbitrary: i)
  case 0
  then show ?case by (simp add: retry_trace_def attempts_def)
next
  case (Suc n)
  then have "i < k" "n = k - Suc i" by simp_all
  with Suc.hyps(1) [of "Suc i"] show ?case
    by (simp add: retry_trace_step attempts_def)
qed

lemma OpenDatabase_success:
  assumes "k < maxRetries" "\<forall>j<k. isl (sql_Open j)" "sql_Open k = Inr h"
  shows "OpenDatabase db sql_Open = ((Some h, None), retry_trace 0 k @ [Open])"
  using OpenDatabase_loop_success [of 0 k sql_Open h db None "[]"] assms
  by (simp add: OpenDatabase_def)

lemma OpenDatabase_failure:
  assumes "\<forall>j<maxRetries. isl (sql_Open j)"
  shows "OpenDatabase db sql_Open =
           ((None, Some (projl (sql_Open (maxRetries - 1)))), retry_trace 0 maxRetries)"
  using OpenDatabase_loop_failure [of 0 sql_Open db None "[]"] assms
  by (simp add: OpenDatabase_def maxRetries_def)

lemma OpenDatabase_attempts: "attempts (snd (OpenDatabase db sql_Open)) \<le> maxRetries"
proof (cases "\<forall>j<maxRetries. isl (sql_Open j)")
  case True
  then show ?thesis
    by (simp add: OpenDatabase_failure attempts_retry_trace)
next
  case False
  define k where "k = (LEAST j. \<not> isl (sql_Open j))"
  from False obtain j where j: "j < maxRetries" "\<not> isl (sql_Open j)" by blast
  have k: "\<not> isl (sql_Open k)" "k \<le> j"
    unfolding k_def using j(2) by (rule LeastI, rule Least_le)
  have b: "\<forall>i<k. isl (sql_Open i)"
    unfolding k_def using not_less_Least by blast
  from k(1) obtain h where "sql_Open k = Inr h"
    by (cases "sql_Open k") auto
  with b k(2) j(1) have "OpenDatabase db sql_Open = ((Some h, None), retry_trace 0 k @ [Open])"
    by (intro OpenDatabase_success) auto
  moreover have "attempts [Open] = 1"
    by (simp add: attempts_def)
  ultimately show ?thesis
    using k(2) j(1) by (simp add: attempts_append attempts_retry_trace)
qed

text \<open>
  C5. \<open>OpenDatabase\<close> calls \<open>sql.Open\<close> at most 5 times. After the failed attempt
  number \<open>i\<close> (counted from 0) it sleeps \<open>i\<close> times the base delay, so the waits
  between consecutive attempts are 0, 1, 2 and 3 times the base delay, and after the
  fifth failed attempt it sleeps 4 times the base delay. If attempt \<open>k\<close> is the first
  to succeed, for any \<open>k\<close> below 5, the handle is returned with a nil error and nothing
  follows that attempt. If all five attempts fail, nil is returned with the error of the
  fifth.
\<close>

theorem OpenDatabase_retry:
  "attempts (snd (OpenDatabase db sql_Open)) \<le> 5 \<and>
   (\<forall>k h. k < 5 \<and> (\<forall>j<k. isl (sql_Open j)) \<and> sql_Open k = Inr h \<longrightarrow>
      OpenDatabase db sql_Open = ((Some h, None), retry_trace 0 k @ [Open])) \<and>
   ((\<forall>j<5. isl (sql_Open j)) \<longrightarrow>
      OpenDatabase db sql_Open = ((None, Some (projl (sql_Open 4))), retry_trace 0 5))"
proof -
  have m: "maxRetries = 5" by (simp add: maxRetries_def)
  have "attempts (snd (OpenDatabase db sql_Open)) \<le> 5"
    using OpenDatabase_attempts [of db sql_Open] by (simp add: m)
  moreover have "OpenDatabase db sql_Open = ((Some h, None), retry_trace 0 k @ [Open])"
    if "k < 5" "\<forall>j<k. isl (sql_Open j)" "sql_Open k = Inr h" for k h
    using that by (intro OpenDatabase_success) (simp_all add: m)
  moreover have "OpenDatabase db sql_Open = ((None, Some (projl (sql_Open 4))), retry_trace 0 5)"
    if "\<forall>j<5. isl (sql_Open j)"
    using that OpenDatabase_failure [of sql_Open db] by (simp add: m)
  ultimately show ?thesis by blast
qed

theorem OpenDatabase_retry_witness:
  "OpenDatabase None (\<lambda>i. if i < 4 then Inl i else Inr ''hacknh.db'') =
     ((Some ''hacknh.db'', None),
      [Open, Sleep 0, Open, Sleep 100000000, Open, Sleep 200000000, Open, Sleep 300000000,
       Open]) \<and>
   OpenDatabase (None :: string option) (\<lambda>i. Inl i) =
     ((None, Some 4),
      [Open, Sleep 0, Open, Sleep 100000000, Open, Sleep 200000000, Open, Sleep 300000000,
       Open, Sleep 400000000])"
proof -
  let ?f = "\<lambda>i::nat. if i < 4 then Inl i else Inr ''hacknh.db''"
  let ?g = "\<lambda>i::nat. (Inl i :: nat + string)"
  have t4: "retry_trace 0 4 @ [Open] =
      [Open, Sleep 0, Open, Sleep 100000000, Open, Sleep 200000000, Open, Sleep 300000000,
       Open]"
    by code_simp
  have t5: "retry_trace 0 5 =
      [Open, Sleep 0, Open, Sleep 100000000, Open, Sleep 200000000, Open, Sleep 300000000,
       Open, Sleep 400000000]"
    by code_simp
  have "(4::nat) < 5 \<and> (\<forall>j<4. isl (?f j)) \<and> ?f 4 = Inr ''hacknh.db''"
    by simp
  with OpenDatabase_retry [of None ?f]
  have "OpenDatabase None ?f = ((Some ''hacknh.db'', None), retry_trace 0 4 @ [Open])"
    by blast
  moreover have "\<forall>j<5. isl (?g j)"
    by simp
  with OpenDatabase_retry [of None ?g]
  have "OpenDatabase None ?g = ((None, Some (projl (?g 4))), retry_trace 0 5)"
    by blast
  ultimately show ?thesis
    by (simp add: t4 t5)
qed

end
